theory Spec2Isabelle
  imports Complex_Main
begin

section \<open>Data model\<close>

text \<open>
  The monitoring engine of \<^verbatim>\<open>src/services/latency-tester.ts\<close> with its two sinks
  (\<^verbatim>\<open>src/services/grafana.ts\<close>, the alert webhook) and its store
  (\<^verbatim>\<open>src/db/database.ts\<close>), as explicit state passing.

  JavaScript numbers are modelled as rationals (\<open>rat\<close>) where the code computes with
  them as quantities (clock readings, intervals, thresholds, the retry count) and as
  integers where they only ever hold integers (HTTP status codes, \<open>Date.getTime()\<close>,
  the rounded latency). Rounding errors of IEEE doubles and \<open>NaN\<close> are outside the model.
\<close>

datatype json = JNull | JBool bool | JNum rat | JStr string

datatype error =
    NetworkError            \<comment> \<open>\<open>fetch\<close> rejects: connection refused, DNS, reset\<close>
  | AbortError              \<comment> \<open>\<open>controller.abort()\<close> fired by the timeout timer\<close>
  | SyntaxError             \<comment> \<open>\<open>response.clone().json()\<close> rejects: body is not JSON\<close>
  | ValidatorError          \<comment> \<open>\<open>options.validateResponse\<close> itself throws\<close>
  | TypeError               \<comment> \<open>\<open>null.toFixed\<close> in \<open>checkAlertThresholds\<close>\<close>
  | PushFailed              \<comment> \<open>\<open>new Error(`Failed to push metrics: ...`)\<close>\<close>
  | AlreadyMonitoring string  \<comment> \<open>\<open>new Error(`Already monitoring ${url}`)\<close>\<close>
  | UnexpectedEnd           \<comment> \<open>\<open>new Error("Unexpected end of performTest")\<close>\<close>

datatype http_method = GET | POST | PUT | DELETE | HEAD

text \<open>\<^verbatim>\<open>src/types/index.ts\<close>: \<open>AlertThreshold\<close> and \<open>LatencyTest\<close>. An optional field is an
  \<open>option\<close>, \<open>None\<close> for \<open>undefined\<close>.\<close>

record AlertThreshold =
  endpoint :: string
  maxLatency :: "rat option"
  minSuccessRate :: "rat option"
  windowSize :: int
  notificationUrl :: "string option"

record LatencyTest =
  endpoint :: string
  timestamp :: int
  latency :: int
  status :: int
  success :: bool

text \<open>\<open>MonitoringOptions\<close> of \<^verbatim>\<open>latency-tester.ts\<close>. The validator returns a boolean or
  throws (\<open>Inl\<close>).\<close>

record MonitoringOptions =
  interval :: "rat option"
  timeout :: "rat option"
  retryCount :: "rat option"
  httpMethod :: "http_method option"   \<comment> \<open>the field \<open>method\<close>\<close>
  headers :: "(string \<times> string) list option"
  body :: "string option"
  expectedStatusCode :: "int option"
  validateResponse :: "(json \<Rightarrow> error + bool) option"

text \<open>A row of the table \<open>latency_tests\<close> (\<^verbatim>\<open>database.ts\<close>), whose key is
  \<open>UNIQUE(timestamp, endpoint)\<close>.\<close>

record row =
  r_timestamp :: int
  r_endpoint :: string
  r_latency :: int
  r_status :: int
  r_success :: int

text \<open>The messages pushed to \<open>alerts\<close> in \<open>checkAlertThresholds\<close>. The formatted strings
  are kept as the numbers they are formatted from: the observed aggregate and the
  threshold.\<close>

datatype alert = HighLatency rat rat | LowSuccessRate rat rat

text \<open>Every call the engine makes to the outside (network, timers, database, console), in
  the order it makes them.\<close>

datatype event =
    EvFetch string http_method           \<comment> \<open>probe request: \<open>fetch(url, {method, ...})\<close>\<close>
  | EvSleep rat                          \<comment> \<open>\<open>setTimeout(resolve, 1000)\<close> between retries\<close>
  | EvInsert row                         \<comment> \<open>\<open>INSERT OR REPLACE INTO latency_tests\<close>\<close>
  | EvPush LatencyTest                   \<comment> \<open>\<open>fetch(config.GRAFANA.PUSH_URL, ...)\<close>\<close>
  | EvQuery string int                   \<comment> \<open>the windowed aggregate query\<close>
  | EvNotify string string "alert list"  \<comment> \<open>\<open>fetch(webhookUrl, ...)\<close>: webhook, endpoint, alerts\<close>
  | EvSetInterval nat rat                \<comment> \<open>\<open>setInterval(cb, interval)\<close> returning this handle\<close>
  | EvClearInterval nat                  \<comment> \<open>\<open>clearInterval(timer)\<close>\<close>
  | EvConsoleError error                 \<comment> \<open>\<open>console.error(...)\<close> of a caught error\<close>

text \<open>What the outside answers. A probed target answers the \<open>k\<close>-th probe request after
  \<open>delay\<close> milliseconds with a network error or a response: its status, its body decoded
  as JSON (\<open>None\<close> when it is not JSON) and the time that reading the body and running
  the validator takes.\<close>

datatype answer = NetError | Response int "json option" rat

record reply =
  delay :: rat
  answer :: answer

datatype push_reply = PushRejects | PushResponds bool

record env =
  probe_net :: "nat \<Rightarrow> reply"        \<comment> \<open>answer to the \<open>k\<close>-th probe request\<close>
  grafana :: "nat \<Rightarrow> push_reply"     \<comment> \<open>answer to the \<open>k\<close>-th metrics push; \<open>PushResponds ok\<close>\<close>
  webhook :: "nat \<Rightarrow> bool"           \<comment> \<open>whether the \<open>k\<close>-th alert POST resolves\<close>
  DEFAULT_INTERVAL :: rat              \<comment> \<open>\<open>config.DEFAULT_INTERVAL\<close>\<close>

text \<open>The state of the process: one virtual clock in milliseconds, read by
  \<open>performance.now()\<close> and, rounded down, by \<open>new Date().getTime()\<close>; the table
  \<open>latency_tests\<close>; the fields \<open>activeTests\<close> and \<open>alertThresholds\<close> of the
  \<open>LatencyTester\<close> instance; the timers armed by \<open>setInterval\<close>, each with what its
  callback closes over (url, options) and the delay argument handed to \<open>setInterval\<close>.\<close>

record world =
  clock :: rat
  log :: "event list"
  rows :: "row list"
  alertThresholds :: "string \<rightharpoonup> AlertThreshold"
  activeTests :: "string \<rightharpoonup> nat"
  timers :: "nat \<rightharpoonup> (string \<times> MonitoringOptions \<times> rat)"
  nextTimer :: nat

definition advance :: "rat \<Rightarrow> world \<Rightarrow> world" where
  "advance d w = w\<lparr>clock := clock w + d\<rparr>"

definition emit :: "event \<Rightarrow> world \<Rightarrow> world" where
  "emit e w = w\<lparr>log := log w @ [e]\<rparr>"

fun is_fetch :: "event \<Rightarrow> bool" where
  "is_fetch (EvFetch u m) = True"
| "is_fetch e = False"

fun is_sleep :: "event \<Rightarrow> bool" where
  "is_sleep (EvSleep d) = True"
| "is_sleep e = False"

fun is_push :: "event \<Rightarrow> bool" where
  "is_push (EvPush t) = True"
| "is_push e = False"

fun is_notify :: "event \<Rightarrow> bool" where
  "is_notify (EvNotify u e a) = True"
| "is_notify e = False"

fun is_set_interval :: "event \<Rightarrow> bool" where
  "is_set_interval (EvSetInterval h i) = True"
| "is_set_interval e = False"

text \<open>The number of probe requests, metric pushes and alert POSTs made so far.\<close>

definition fetches :: "world \<Rightarrow> nat" where
  "fetches w = length (filter is_fetch (log w))"

definition pushes :: "world \<Rightarrow> nat" where
  "pushes w = length (filter is_push (log w))"

definition notifications :: "world \<Rightarrow> nat" where
  "notifications w = length (filter is_notify (log w))"

text \<open>\<open>Math.round\<close>: to the nearest integer, halves towards \<open>+\<infinity>\<close>.\<close>

definition js_round :: "rat \<Rightarrow> int" where
  "js_round x = \<lfloor>x + 1 / 2\<rfloor>"

text \<open>\<open>new Date().getTime()\<close>.\<close>

definition date_now :: "world \<Rightarrow> int" where
  "date_now w = \<lfloor>clock w\<rfloor>"

text \<open>\<open>response.ok\<close> of the Fetch standard: the status is in the range 200 to 299.\<close>

definition response_ok :: "int \<Rightarrow> bool" where
  "response_ok st = (200 \<le> st \<and> st \<le> 299)"

section \<open>The probe executor: \<open>performTest\<close>\<close>

text \<open>
  The body of the \<open>try\<close> block, lines 71 to 99: one attempt. \<open>Inl\<close> is an exception, which
  the \<open>catch\<close> of line 100 receives; \<open>Inr (status, success, endTime)\<close> is what the
  \<open>return\<close> of line 93 is built from. The abort timer is set with
  \<open>setTimeout(..., options.timeout ?? 30000)\<close> and fires after \<open>abort_after\<close>, when the
  request is still pending then. In
  \<open>expectedStatusCode ? ... : response.ok\<close> the code 0 is falsy, like \<open>undefined\<close>;
  \<open>options.method ?? "GET"\<close> is \<open>default_method\<close>.
  \<open>&&\<close> and \<open>||\<close> short-circuit: the body is decoded and the validator is run only when the
  status check passed and a validator is present.
\<close>

text \<open>
  The delay a timer of the runtime really waits: \<open>setTimeout\<close> and \<open>setInterval\<close> replace
  a delay below 1 or above \<open>2^31 - 1\<close> by 1 ms. So a \<open>timeout\<close> option of 0, a negative
  one, or one of 2147483648 and more aborts the request after 1 ms.
\<close>

definition timer_delay :: "rat \<Rightarrow> rat" where
  "timer_delay d = (if d < 1 \<or> 2147483647 < d then 1 else d)"

definition abort_after :: "MonitoringOptions \<Rightarrow> rat" where
  "abort_after options = timer_delay (case timeout options of None \<Rightarrow> 30000 | Some t \<Rightarrow> t)"

definition default_method :: "MonitoringOptions \<Rightarrow> http_method" where
  "default_method options = (case httpMethod options of None \<Rightarrow> GET | Some m \<Rightarrow> m)"

definition attempt ::
  "env \<Rightarrow> string \<Rightarrow> MonitoringOptions \<Rightarrow> world \<Rightarrow> (error + int \<times> bool \<times> rat) \<times> world" where
  "attempt e url options w =
    (let r = probe_net e (fetches w);
         w1 = emit (EvFetch url (default_method options)) w;
         tmo = abort_after options
     in if tmo < delay r then (Inl AbortError, advance tmo w1)
        else (case answer r of
            NetError \<Rightarrow> (Inl NetworkError, advance (delay r) w1)
          | Response st decoded body_ms \<Rightarrow>
              (let w2 = advance (delay r) w1;
                   endTime = clock w2;
                   status_ok = (case expectedStatusCode options of
                                  None \<Rightarrow> response_ok st
                                | Some c \<Rightarrow> if c \<noteq> 0 then st = c else response_ok st)
               in if \<not> status_ok then (Inr (st, False, endTime), w2)
                  else (case validateResponse options of
                      None \<Rightarrow> (Inr (st, True, endTime), w2)
                    | Some v \<Rightarrow>
                        (let w3 = advance body_ms w2
                         in case decoded of
                              None \<Rightarrow> (Inl SyntaxError, w3)
                            | Some j \<Rightarrow>
                                (case v j of
                                   Inl err \<Rightarrow> (Inl err, w3)
                                 | Inr b \<Rightarrow> (Inr (st, b, endTime), w3)))))))"

text \<open>
  The \<open>while\<close> loop of lines 69 to 115, with \<open>startTime\<close>, \<open>maxTries\<close> and \<open>currentTry\<close>
  as arguments. A completed response returns at once, whatever \<open>success\<close> is; only an
  exception reaches the \<open>catch\<close>, which counts the try, returns the failed result when
  \<open>currentTry === maxTries\<close>, and otherwise sleeps 1000 ms and loops. When the loop
  condition fails the function throws (line 118).
\<close>

function performTest_loop ::
  "env \<Rightarrow> string \<Rightarrow> MonitoringOptions \<Rightarrow> rat \<Rightarrow> rat \<Rightarrow> nat \<Rightarrow> world
     \<Rightarrow> (error + LatencyTest) \<times> world" where
  "performTest_loop e url options startTime maxTries currentTry w =
    (if of_nat currentTry < maxTries then
       (case attempt e url options w of
          (Inr (st, ok, endTime), w1) \<Rightarrow>
            (Inr \<lparr>endpoint = url, timestamp = date_now w1,
                  latency = js_round (endTime - startTime), status = st, success = ok\<rparr>, w1)
        | (Inl err, w1) \<Rightarrow>
            if of_nat (Suc currentTry) = maxTries then
              (Inr \<lparr>endpoint = url, timestamp = date_now w1,
                    latency = js_round (clock w1 - startTime), status = 0, success = False\<rparr>, w1)
            else performTest_loop e url options startTime maxTries (Suc currentTry)
                   (advance 1000 (emit (EvSleep 1000) w1)))
     else (Inl UnexpectedEnd, w))"
  by pat_completeness auto
termination
proof (relation "measure (\<lambda>(e, url, options, startTime, maxTries, currentTry, w).
                    nat \<lceil>maxTries - of_nat currentTry\<rceil>)")
  show "wf (measure (\<lambda>(e, url, options, startTime, maxTries, currentTry, w).
                    nat \<lceil>maxTries - rat_of_nat currentTry\<rceil>))"
    by simp
next
  fix e :: env and url :: string and options :: MonitoringOptions
    and startTime maxTries :: rat and currentTry :: nat and w :: world
    and x1 :: "error + int \<times> bool \<times> rat" and w1 :: world and err :: error
  assume lt: "rat_of_nat currentTry < maxTries"
  have "maxTries - rat_of_nat (Suc currentTry) = (maxTries - rat_of_nat currentTry) - 1"
    by simp
  then have "\<lceil>maxTries - rat_of_nat (Suc currentTry)\<rceil> = \<lceil>maxTries - rat_of_nat currentTry\<rceil> - 1"
    by (simp only: ceiling_diff_one)
  moreover have "0 < \<lceil>maxTries - rat_of_nat currentTry\<rceil>"
    using lt by simp
  ultimately show
    "((e, url, options, startTime, maxTries, Suc currentTry, advance 1000 (emit (EvSleep 1000) w1)),
      (e, url, options, startTime, maxTries, currentTry, w))
     \<in> measure (\<lambda>(e, url, options, startTime, maxTries, currentTry, w).
                    nat \<lceil>maxTries - rat_of_nat currentTry\<rceil>)"
    by simp
qed

declare performTest_loop.simps [simp del]

text \<open>Line 67: \<open>maxTries = (options.retryCount ?? 0) + 1\<close>.\<close>

definition max_tries :: "MonitoringOptions \<Rightarrow> rat" where
  "max_tries options = (case retryCount options of None \<Rightarrow> 0 | Some n \<Rightarrow> n) + 1"

definition performTest ::
  "env \<Rightarrow> string \<Rightarrow> MonitoringOptions \<Rightarrow> world \<Rightarrow> (error + LatencyTest) \<times> world" where
  "performTest e url options w =
    performTest_loop e url options (clock w) (max_tries options) 0 w"

section \<open>The result store and the telemetry sink\<close>

text \<open>
  \<open>storeResult\<close>, lines 121 to 134: \<open>INSERT OR REPLACE\<close> under the key
  \<open>UNIQUE(timestamp, endpoint)\<close> deletes the row with the same key, if any, and inserts
  the new one. Write errors of the database are not modelled.
\<close>

definition storeResult :: "LatencyTest \<Rightarrow> world \<Rightarrow> world" where
  "storeResult result w =
    (let new = \<lparr>r_timestamp = timestamp result, r_endpoint = LatencyTest.endpoint result,
                 r_latency = latency result, r_status = status result,
                 r_success = (if success result then 1 else 0)\<rparr>
     in emit (EvInsert new)
          (w\<lparr>rows := filter (\<lambda>r. \<not> (r_timestamp r = r_timestamp new \<and>
                                        r_endpoint r = r_endpoint new)) (rows w) @ [new]\<rparr>))"

text \<open>
  \<open>GrafanaService.pushMetrics\<close>, \<^verbatim>\<open>grafana.ts\<close> lines 65 to 100. The three metrics in
  line protocol are kept as the result they are built from. A rejected \<open>fetch\<close> and a
  response that is not \<open>ok\<close> both end in the \<open>catch\<close> of line 93, which logs the error and
  throws it again (line 98).
\<close>

definition pushMetrics :: "env \<Rightarrow> LatencyTest \<Rightarrow> world \<Rightarrow> (error + unit) \<times> world" where
  "pushMetrics e test w =
    (let w1 = emit (EvPush test) w
     in case grafana e (pushes w) of
          PushRejects \<Rightarrow> (Inl NetworkError, emit (EvConsoleError NetworkError) w1)
        | PushResponds ok \<Rightarrow>
            if \<not> ok then (Inl PushFailed, emit (EvConsoleError PushFailed) w1)
            else (Inr (), w1))"

section \<open>The alert evaluator: \<open>checkAlertThresholds\<close>\<close>

text \<open>
  The query of lines 142 to 155 over the rows of the endpoint with
  \<open>timestamp >= windowStart\<close>. SQL's \<open>AVG\<close> over no rows is \<open>NULL\<close>, which arrives as
  \<open>null\<close>: \<open>None\<close> here.
\<close>

record recentTests =
  avg_latency :: "rat option"
  success_rate :: "rat option"

definition window_rows :: "row list \<Rightarrow> string \<Rightarrow> int \<Rightarrow> row list" where
  "window_rows rs ep windowStart =
    filter (\<lambda>r. r_endpoint r = ep \<and> windowStart \<le> r_timestamp r) rs"

definition sql_avg :: "rat list \<Rightarrow> rat option" where
  "sql_avg xs = (if xs = [] then None else Some (sum_list xs / of_nat (length xs)))"

definition window_aggregate :: "row list \<Rightarrow> string \<Rightarrow> int \<Rightarrow> recentTests" where
  "window_aggregate rs ep windowStart =
    (let sel = window_rows rs ep windowStart
     in \<lparr>avg_latency = sql_avg (map (\<lambda>r. of_int (r_latency r)) sel),
         success_rate = sql_avg (map (\<lambda>r. if r_success r = 1 then 1 else 0) sel)\<rparr>)"

text \<open>JavaScript's \<open>null > x\<close> and \<open>null < x\<close> compare \<open>ToNumber(null) = 0\<close> with \<open>x\<close>;
  \<open>null * 100\<close> is \<open>0\<close>.\<close>

definition to_number :: "rat option \<Rightarrow> rat" where
  "to_number v = (case v of None \<Rightarrow> 0 | Some x \<Rightarrow> x)"

text \<open>
  Lines 159 to 168. \<open>threshold.maxLatency && ...\<close>: \<open>undefined\<close> and \<open>0\<close> are falsy.
  \<open>recentTests.avg_latency.toFixed(2)\<close> throws a \<open>TypeError\<close> when \<open>avg_latency\<close> is
  \<open>null\<close>.
\<close>

definition latency_breach :: "AlertThreshold \<Rightarrow> recentTests \<Rightarrow> error + alert list" where
  "latency_breach threshold recent =
    (case maxLatency threshold of
       None \<Rightarrow> Inr []
     | Some m \<Rightarrow>
         if m \<noteq> 0 \<and> to_number (avg_latency recent) > m then
           (case avg_latency recent of
              None \<Rightarrow> Inl TypeError
            | Some a \<Rightarrow> Inr [HighLatency a m])
         else Inr [])"

text \<open>Lines 170 to 179. \<open>(recentTests.success_rate * 100).toFixed(1)\<close> does not throw on
  \<open>null\<close>.\<close>

definition success_breach :: "AlertThreshold \<Rightarrow> recentTests \<Rightarrow> alert list" where
  "success_breach threshold recent =
    (case minSuccessRate threshold of
       None \<Rightarrow> []
     | Some m \<Rightarrow>
         if m \<noteq> 0 \<and> to_number (success_rate recent) < m then
           [LowSuccessRate (to_number (success_rate recent)) m]
         else [])"

text \<open>The array \<open>alerts\<close> at line 181, or the exception thrown on the way.\<close>

definition collect_alerts :: "AlertThreshold \<Rightarrow> recentTests \<Rightarrow> error + alert list" where
  "collect_alerts threshold recent =
    (case latency_breach threshold recent of
       Inl err \<Rightarrow> Inl err
     | Inr hl \<Rightarrow> Inr (hl @ success_breach threshold recent))"

text \<open>\<open>sendAlert\<close>, lines 186 to 204: the POST is made; its failure is logged and
  swallowed.\<close>

definition sendAlert :: "env \<Rightarrow> string \<Rightarrow> alert list \<Rightarrow> string \<Rightarrow> world \<Rightarrow> world" where
  "sendAlert e ep alerts webhookUrl w =
    (let w1 = emit (EvNotify webhookUrl ep alerts) w
     in if webhook e (notifications w) then w1 else emit (EvConsoleError NetworkError) w1)"

text \<open>\<open>checkAlertThresholds\<close>, lines 136 to 184. At line 181 the empty string is falsy, like
  \<open>undefined\<close>.\<close>

definition checkAlertThresholds :: "env \<Rightarrow> LatencyTest \<Rightarrow> world \<Rightarrow> (error + unit) \<times> world" where
  "checkAlertThresholds e result w =
    (case alertThresholds w (LatencyTest.endpoint result) of
       None \<Rightarrow> (Inr (), w)
     | Some threshold \<Rightarrow>
         (let windowStart = timestamp result - windowSize threshold;
              w1 = emit (EvQuery (LatencyTest.endpoint result) windowStart) w;
              recent = window_aggregate (rows w) (LatencyTest.endpoint result) windowStart
          in case collect_alerts threshold recent of
               Inl err \<Rightarrow> (Inl err, w1)
             | Inr alerts \<Rightarrow>
                 (case notificationUrl threshold of
                    None \<Rightarrow> (Inr (), w1)
                  | Some u \<Rightarrow>
                      if alerts \<noteq> [] \<and> u \<noteq> [] then
                        (Inr (), sendAlert e (LatencyTest.endpoint result) alerts u w1)
                      else (Inr (), w1))))"

section \<open>One probe cycle: \<open>testEndpoint\<close>\<close>

text \<open>Lines 206 to 215: four awaited steps in sequence; an exception of one of them
  rejects the promise and skips the rest.\<close>

definition testEndpoint ::
  "env \<Rightarrow> string \<Rightarrow> MonitoringOptions \<Rightarrow> world \<Rightarrow> (error + LatencyTest) \<times> world" where
  "testEndpoint e url options w =
    (case performTest e url options w of
       (Inl err, w1) \<Rightarrow> (Inl err, w1)
     | (Inr result, w1) \<Rightarrow>
         (let w2 = storeResult result w1
          in case pushMetrics e result w2 of
               (Inl err, w3) \<Rightarrow> (Inl err, w3)
             | (Inr u, w3) \<Rightarrow>
                 (case checkAlertThresholds e result w3 of
                    (Inl err, w4) \<Rightarrow> (Inl err, w4)
                  | (Inr u', w4) \<Rightarrow> (Inr result, w4))))"

section \<open>The threshold table\<close>

text \<open>Lines 217 to 244, on the in-memory table. The mirror in the table
  \<open>alert_thresholds\<close> is read only by the constructor and is left out.\<close>

definition setAlertThreshold :: "AlertThreshold \<Rightarrow> world \<Rightarrow> world" where
  "setAlertThreshold threshold w =
    w\<lparr>alertThresholds := (alertThresholds w)(AlertThreshold.endpoint threshold \<mapsto> threshold)\<rparr>"

definition removeAlertThreshold :: "string \<Rightarrow> world \<Rightarrow> world" where
  "removeAlertThreshold ep w = w\<lparr>alertThresholds := (alertThresholds w)(ep := None)\<rparr>"

definition getAlertThreshold :: "string \<Rightarrow> world \<Rightarrow> AlertThreshold option" where
  "getAlertThreshold ep w = alertThresholds w ep"

text \<open>
  The body schema of \<open>POST /alerts\<close> (the server file, lines 113 to 119), which guards
  the handler calling \<open>setAlertThreshold(body)\<close>. The check of \<open>format: "uri"\<close> belongs to
  the validation library and is a parameter.
\<close>

definition alert_body_schema :: "(string \<Rightarrow> bool) \<Rightarrow> AlertThreshold \<Rightarrow> bool" where
  "alert_body_schema is_uri b =
    (is_uri (AlertThreshold.endpoint b) \<and>
     (case maxLatency b of None \<Rightarrow> True | Some m \<Rightarrow> 0 \<le> m) \<and>
     (case minSuccessRate b of None \<Rightarrow> True | Some m \<Rightarrow> 0 \<le> m \<and> m \<le> 1) \<and>
     1000 \<le> windowSize b \<and>
     (case notificationUrl b of None \<Rightarrow> True | Some u \<Rightarrow> is_uri u))"

definition post_alerts :: "(string \<Rightarrow> bool) \<Rightarrow> AlertThreshold \<Rightarrow> world \<Rightarrow> world option" where
  "post_alerts is_uri b w =
    (if alert_body_schema is_uri b then Some (setAlertThreshold b w) else None)"

section \<open>The monitor scheduler\<close>

text \<open>
  \<open>startMonitoring\<close>, lines 246 to 265. The second parameter is a number, an options
  object, or absent (then \<open>config.DEFAULT_INTERVAL\<close>). The function is not \<open>async\<close>: the
  outer \<open>Inl\<close> is the exception thrown at line 251, the outer \<open>Inr\<close> carries the promise
  returned at line 264, settled as rejected (\<open>Inl\<close>) or resolved (\<open>Inr\<close>). The steps are
  in the order of the source: \<open>setInterval\<close> (line 259), \<open>activeTests.set\<close> (line 263),
  then the initial \<open>testEndpoint\<close> (line 264).
\<close>

datatype start_options = OptNumber rat | OptObject MonitoringOptions

definition normalize_options :: "env \<Rightarrow> start_options option \<Rightarrow> MonitoringOptions" where
  "normalize_options e options =
    (let from_number = (\<lambda>n. \<lparr>interval = Some n, timeout = None, retryCount = None,
                              httpMethod = None, headers = None, body = None,
                              expectedStatusCode = None, validateResponse = None\<rparr>)
     in case options of
          None \<Rightarrow> from_number (DEFAULT_INTERVAL e)
        | Some (OptNumber n) \<Rightarrow> from_number n
        | Some (OptObject obj) \<Rightarrow> obj)"

definition startMonitoring ::
  "env \<Rightarrow> string \<Rightarrow> start_options option \<Rightarrow> world
     \<Rightarrow> (error + (error + LatencyTest)) \<times> world" where
  "startMonitoring e url options w =
    (if activeTests w url \<noteq> None then (Inl (AlreadyMonitoring url), w)
     else
       (let normalizedOptions = normalize_options e options;
            iv = (case interval normalizedOptions of None \<Rightarrow> DEFAULT_INTERVAL e | Some i \<Rightarrow> i);
            timer = nextTimer w;
            w1 = emit (EvSetInterval timer iv)
                   (w\<lparr>timers := (timers w)(timer \<mapsto> (url, normalizedOptions, iv)),
                      nextTimer := Suc timer\<rparr>);
            w2 = w1\<lparr>activeTests := (activeTests w1)(url \<mapsto> timer)\<rparr>
        in case testEndpoint e url normalizedOptions w2 of
             (r, w3) \<Rightarrow> (Inr r, w3)))"

text \<open>The callback of line 260, run when the timer with this handle fires: a rejected
  cycle is logged by \<open>.catch(console.error)\<close>. A cleared timer does not fire.\<close>

definition timer_fire :: "env \<Rightarrow> nat \<Rightarrow> world \<Rightarrow> world" where
  "timer_fire e timer w =
    (case timers w timer of
       None \<Rightarrow> w
     | Some (url, normalizedOptions, iv) \<Rightarrow>
         (case testEndpoint e url normalizedOptions w of
            (Inl err, w1) \<Rightarrow> emit (EvConsoleError err) w1
          | (Inr result, w1) \<Rightarrow> w1))"

text \<open>\<open>stopMonitoring\<close>, lines 267 to 273. A timer handle is an object, so \<open>if (timer)\<close>
  tests only whether the url has an entry.\<close>

definition stopMonitoring :: "string \<Rightarrow> world \<Rightarrow> world" where
  "stopMonitoring url w =
    (case activeTests w url of
       None \<Rightarrow> w
     | Some timer \<Rightarrow>
         (emit (EvClearInterval timer) (w\<lparr>timers := (timers w)(timer := None)\<rparr>))
           \<lparr>activeTests := (activeTests w)(url := None)\<rparr>)"

section \<open>Notions used in the statements\<close>

text \<open>
  When one attempt ends in an exception, read off \<open>attempt\<close>: the abort timer fires, or
  \<open>fetch\<close> rejects, or the status check passes and decoding the body or the validator
  throws. And the time the attempt has taken when the exception is thrown.
\<close>

definition reply_throws :: "MonitoringOptions \<Rightarrow> reply \<Rightarrow> bool" where
  "reply_throws options r =
    (let tmo = abort_after options
     in if tmo < delay r then True
        else (case answer r of
            NetError \<Rightarrow> True
          | Response st decoded body_ms \<Rightarrow>
              (case expectedStatusCode options of
                 None \<Rightarrow> response_ok st
               | Some c \<Rightarrow> if c \<noteq> 0 then st = c else response_ok st) \<and>
              (case validateResponse options of
                 None \<Rightarrow> False
               | Some v \<Rightarrow> (case decoded of None \<Rightarrow> True | Some j \<Rightarrow> isl (v j)))))"

definition thrown_after :: "MonitoringOptions \<Rightarrow> reply \<Rightarrow> rat" where
  "thrown_after options r =
    (let tmo = abort_after options
     in if tmo < delay r then tmo
        else (case answer r of
            NetError \<Rightarrow> delay r
          | Response st decoded body_ms \<Rightarrow> delay r + body_ms))"

text \<open>The result object of lines 104 to 110.\<close>

definition exhausted :: "string \<Rightarrow> rat \<Rightarrow> world \<Rightarrow> LatencyTest" where
  "exhausted url startTime w =
    \<lparr>endpoint = url, timestamp = date_now w, latency = js_round (clock w - startTime),
     status = 0, success = False\<rparr>"

text \<open>Events of the probe executor only.\<close>

definition probe_events :: "event list \<Rightarrow> bool" where
  "probe_events evs = list_all (\<lambda>ev. is_fetch ev \<or> is_sleep ev) evs"

text \<open>The part of the state that belongs to the scheduler and the threshold table.\<close>

definition sessions ::
  "world \<Rightarrow> (string \<rightharpoonup> nat) \<times> (nat \<rightharpoonup> (string \<times> MonitoringOptions \<times> rat)) \<times> nat
             \<times> (string \<rightharpoonup> AlertThreshold)" where
  "sessions w = (activeTests w, timers w, nextTimer w, alertThresholds w)"


subsection \<open>Concrete scenarios\<close>

text \<open>A fresh process; no options; a target and a telemetry sink that answer every
  request the same way, after 5 ms.\<close>

definition world0 :: world where
  "world0 = \<lparr>clock = 0, log = [], rows = [], alertThresholds = Map.empty,
             activeTests = Map.empty, timers = Map.empty, nextTimer = 0\<rparr>"

definition no_options :: MonitoringOptions where
  "no_options = \<lparr>interval = None, timeout = None, retryCount = None, httpMethod = None,
                 headers = None, body = None, expectedStatusCode = None,
                 validateResponse = None\<rparr>"

definition steady_env :: "answer \<Rightarrow> push_reply \<Rightarrow> env" where
  "steady_env a p = \<lparr>probe_net = (\<lambda>k. \<lparr>delay = 5, answer = a\<rparr>), grafana = (\<lambda>k. p),
                     webhook = (\<lambda>k. True), DEFAULT_INTERVAL = 30000\<rparr>"

text \<open>A validator that rejects every body.\<close>

definition reject_all :: "json \<Rightarrow> error + bool" where
  "reject_all j = Inr False"

text \<open>Thresholds for the endpoint \<open>http://a\<close>, and the fresh process holding one.\<close>

definition latency_threshold :: AlertThreshold where
  "latency_threshold = \<lparr>AlertThreshold.endpoint = ''http://a'', maxLatency = Some 1, minSuccessRate = None,
                          windowSize = 60000, notificationUrl = Some ''http://hook''\<rparr>"

definition success_threshold :: "int \<Rightarrow> AlertThreshold" where
  "success_threshold ws = \<lparr>AlertThreshold.endpoint = ''http://a'', maxLatency = None,
                            minSuccessRate = Some (9 / 10), windowSize = ws,
                            notificationUrl = Some ''http://hook''\<rparr>"

definition watching :: "AlertThreshold \<Rightarrow> world" where
  "watching threshold = setAlertThreshold threshold world0"

text \<open>A process that monitors \<open>http://a\<close> with timer 0.\<close>

definition monitoring :: world where
  "monitoring = world0\<lparr>activeTests := [''http://a'' \<mapsto> 0],
                         timers := [0 \<mapsto> (''http://a'', no_options, 30000)],
                         nextTimer := 1\<rparr>"

text \<open>Ten rows for \<open>http://a\<close> at the timestamps 1 to 10 with latency 100, the first
  \<open>k\<close> of them failures.\<close>

definition sample_row :: "int \<Rightarrow> bool \<Rightarrow> row" where
  "sample_row t ok = \<lparr>r_timestamp = t, r_endpoint = ''http://a'', r_latency = 100,
                      r_status = (if ok then 200 else 500),
                      r_success = (if ok then 1 else 0)\<rparr>"

definition ten_rows :: "int \<Rightarrow> row list" where
  "ten_rows k = map (\<lambda>t. sample_row t (k < t)) [1, 2, 3, 4, 5, 6, 7, 8, 9, 10]"

text \<open>Rows that lie outside the window of \<open>http://a\<close> from timestamp \<open>-59990\<close> on: an
  old failure of that endpoint and a failure of another endpoint. A result for
  \<open>http://a\<close> at timestamp 10. A process that holds the given rows and threshold.\<close>

definition outside_rows :: "row list" where
  "outside_rows =
    [\<lparr>r_timestamp = - 100000, r_endpoint = ''http://a'', r_latency = 9000, r_status = 0,
      r_success = 0\<rparr>,
     \<lparr>r_timestamp = 5, r_endpoint = ''http://b'', r_latency = 9000, r_status = 0,
      r_success = 0\<rparr>]"

definition sample_result :: LatencyTest where
  "sample_result = \<lparr>endpoint = ''http://a'', timestamp = 10, latency = 100, status = 200,
                     success = True\<rparr>"

definition stored :: "row list \<Rightarrow> AlertThreshold \<Rightarrow> world" where
  "stored rs threshold = (watching threshold)\<lparr>rows := rs\<rparr>"

section \<open>The probe executor\<close>

lemma fetches_emit: "fetches (emit ev w) = (if is_fetch ev then Suc (fetches w) else fetches w)"
  by (simp add: fetches_def emit_def)

lemma fetches_advance: "fetches (advance d w) = fetches w"
  by (simp add: fetches_def advance_def)

lemma clock_advance: "clock (advance d w) = clock w + d"
  by (simp add: advance_def)

lemma clock_emit: "clock (emit ev w) = clock w"
  by (simp add: emit_def)

lemma attempt_throws:
  assumes "reply_throws options (probe_net e (fetches w))"
  shows "\<exists>err. attempt e url options w =
           (Inl err, advance (thrown_after options (probe_net e (fetches w)))
                       (emit (EvFetch url (default_method options)) w))"
  using assms
  by (auto simp: attempt_def reply_throws_def thrown_after_def Let_def advance_def emit_def
      split: answer.splits option.splits if_splits sum.splits)

text \<open>\<open>reply_throws\<close> is exactly when the attempt ends in an exception.\<close>

lemma attempt_throws_iff:
  "isl (fst (attempt e url options w)) \<longleftrightarrow> reply_throws options (probe_net e (fetches w))"
  by (auto simp: attempt_def reply_throws_def Let_def
      split: answer.splits option.splits if_splits sum.splits)

lemma attempt_frame:
  "attempt e url options w = (r, w1) \<Longrightarrow>
     w1 = w\<lparr>clock := clock w1, log := log w @ [EvFetch url (default_method options)]\<rparr>"
  by (auto simp: attempt_def Let_def advance_def emit_def
      split: answer.splits option.splits if_splits sum.splits)

lemma fetches_attempt: "fetches (snd (attempt e url options w)) = Suc (fetches w)"
proof -
  obtain r w1 where a: "attempt e url options w = (r, w1)"
    by (cases "attempt e url options w")
  have "log w1 = log w @ [EvFetch url (default_method options)]"
    by (subst attempt_frame[OF a]) simp
  then show ?thesis
    using a by (simp add: fetches_def)
qed

text \<open>The loop when every remaining attempt throws: \<open>d\<close> attempts, \<open>d - 1\<close> sleeps.\<close>

lemma loop_all_throw:
  assumes "\<forall>k<d. reply_throws options (probe_net e (fetches w + k))"
    and "m = c + d" and "0 < d"
  shows "\<exists>w'. performTest_loop e url options st (of_nat m) c w = (Inr (exhausted url st w'), w')
           \<and> fetches w' = fetches w + d
           \<and> clock w' = clock w + (\<Sum>k<d. thrown_after options (probe_net e (fetches w + k)))
                          + 1000 * of_nat (d - 1)"
  using assms
proof (induction d arbitrary: c w)
  case 0
  then show ?case by simp
next
  case (Suc d)
  let ?w1 = "advance (thrown_after options (probe_net e (fetches w)))
               (emit (EvFetch url (default_method options)) w)"
  from Suc.prems(1) have "reply_throws options (probe_net e (fetches w))"
    by (metis add.right_neutral zero_less_Suc)
  then obtain err where att: "attempt e url options w = (Inl err, ?w1)"
    using attempt_throws by blast
  have lt: "rat_of_nat c < rat_of_nat m"
    using Suc.prems(2) by simp
  have f1: "fetches ?w1 = Suc (fetches w)"
    by (simp add: fetches_advance fetches_emit)
  have c1: "clock ?w1 = clock w + thrown_after options (probe_net e (fetches w))"
    by (simp add: clock_advance clock_emit)
  show ?case
  proof (cases d)
    case 0
    then have "rat_of_nat (Suc c) = rat_of_nat m"
      using Suc.prems(2) by simp
    then have "performTest_loop e url options st (of_nat m) c w = (Inr (exhausted url st ?w1), ?w1)"
      using lt att by (subst performTest_loop.simps) (simp add: exhausted_def)
    then show ?thesis
      using 0 f1 c1 by simp
  next
    case (Suc d')
    let ?w2 = "advance 1000 (emit (EvSleep 1000) ?w1)"
    have ne: "rat_of_nat (Suc c) \<noteq> rat_of_nat m"
      using Suc.prems(2) Suc by (simp only: of_nat_eq_iff)
    have step: "performTest_loop e url options st (of_nat m) c w =
                performTest_loop e url options st (of_nat m) (Suc c) ?w2"
      using lt att ne by (subst performTest_loop.simps) simp
    have f2: "fetches ?w2 = Suc (fetches w)"
      using f1 by (simp add: fetches_advance fetches_emit)
    have c2: "clock ?w2 = clock w + thrown_after options (probe_net e (fetches w)) + 1000"
      using c1 by (simp add: clock_advance clock_emit)
    have hyp: "\<forall>k<d. reply_throws options (probe_net e (fetches ?w2 + k))"
    proof (intro allI impI)
      fix k assume "k < d"
      then have "Suc k < Suc d" by simp
      with \<open>\<forall>k<Suc d. reply_throws options (probe_net e (fetches w + k))\<close>
      have "reply_throws options (probe_net e (fetches w + Suc k))" by blast
      then show "reply_throws options (probe_net e (fetches ?w2 + k))"
        using f2 by simp
    qed
    from Suc.IH[OF hyp, of "Suc c"] Suc.prems(2) Suc
    obtain w' where
      r: "performTest_loop e url options st (of_nat m) (Suc c) ?w2 = (Inr (exhausted url st w'), w')"
      and f: "fetches w' = fetches ?w2 + d"
      and c: "clock w' = clock ?w2 + (\<Sum>k<d. thrown_after options (probe_net e (fetches ?w2 + k)))
                          + 1000 * of_nat (d - 1)"
      by auto
    have sum: "(\<Sum>k<Suc d. thrown_after options (probe_net e (fetches w + k))) =
          thrown_after options (probe_net e (fetches w)) +
          (\<Sum>k<d. thrown_after options (probe_net e (fetches ?w2 + k)))"
      using f2 by (simp add: sum.lessThan_Suc_shift del: sum.lessThan_Suc)
    have "clock w' = clock w + (\<Sum>k<Suc d. thrown_after options (probe_net e (fetches w + k)))
                          + 1000 * of_nat (Suc d - 1)"
      using c c2 sum Suc by simp
    then show ?thesis
      using step r f f2 by auto
  qed
qed

lemma performTest_all_throw:
  assumes "max_tries options = of_nat (Suc n)"
    and "\<forall>k<Suc n. reply_throws options (probe_net e (fetches w + k))"
  shows "\<exists>w'. performTest e url options w = (Inr (exhausted url (clock w) w'), w')
           \<and> fetches w' = fetches w + Suc n
           \<and> clock w' = clock w + (\<Sum>k<Suc n. thrown_after options (probe_net e (fetches w + k)))
                          + 1000 * of_nat n"
proof -
  have "performTest e url options w =
        performTest_loop e url options (clock w) (of_nat (Suc n)) 0 w"
    using assms(1) by (simp only: performTest_def)
  then show ?thesis
    using loop_all_throw[OF assms(2), of "Suc n" 0 url "clock w"]
    by (simp del: sum.lessThan_Suc of_nat_Suc)
qed

lemma performTest_single:
  assumes "max_tries options = 1"
  shows "fetches (snd (performTest e url options w)) = Suc (fetches w)"
proof -
  obtain r w1 where a: "attempt e url options w = (r, w1)"
    by (cases "attempt e url options w")
  have "snd (performTest e url options w) = w1"
    using assms a unfolding performTest_def
    by (subst performTest_loop.simps) (auto split: sum.splits)
  then show ?thesis
    using fetches_attempt[of e url options w] a by simp
qed

text \<open>A completed response ends the probe at the first attempt.\<close>

lemma performTest_completed:
  assumes "attempt e url options w = (Inr (st, ok, t), w1)" and "0 < max_tries options"
  shows "performTest e url options w =
           (Inr \<lparr>endpoint = url, timestamp = date_now w1, latency = js_round (t - clock w),
                 status = st, success = ok\<rparr>, w1)"
  using assms unfolding performTest_def
  by (subst performTest_loop.simps) simp

text \<open>The probe executor changes the clock and appends its own events, nothing else.\<close>

lemma performTest_loop_frame:
  "performTest_loop e url options st m c w = (r, w') \<Longrightarrow>
     \<exists>evs. w' = w\<lparr>clock := clock w', log := log w @ evs\<rparr> \<and> probe_events evs"
proof (induction e url options st m c w arbitrary: r w' rule: performTest_loop.induct)
  case (1 e url options startTime maxTries currentTry w)
  show ?case
  proof (cases "of_nat currentTry < maxTries")
    case False
    with "1.prems" have "w' = w"
      by (subst (asm) performTest_loop.simps) simp
    then show ?thesis
      by (intro exI[of _ "[]"]) (simp add: probe_events_def)
  next
    case True
    obtain x w1 where att: "attempt e url options w = (x, w1)"
      by (cases "attempt e url options w")
    then have base: "w1 = w\<lparr>clock := clock w1, log := log w @ [EvFetch url (default_method options)]\<rparr>"
      by (rule attempt_frame)
    have lw1: "log w1 = log w @ [EvFetch url (default_method options)]"
      by (subst base) simp
    have upd: "w1\<lparr>clock := c, log := l\<rparr> = w\<lparr>clock := c, log := l\<rparr>" for c l
      by (subst base) simp
    show ?thesis
    proof (cases "\<exists>err. x = Inl err \<and> of_nat (Suc currentTry) \<noteq> maxTries")
      case False
      with "1.prems" True att have "w' = w1"
        by (subst (asm) performTest_loop.simps) (auto split: sum.splits if_splits)
      with base show ?thesis
        by (intro exI[of _ "[EvFetch url (default_method options)]"]) (simp add: probe_events_def)
    next
      case True
      then obtain err where x: "x = Inl err" and ne: "of_nat (Suc currentTry) \<noteq> maxTries"
        by blast
      let ?w2 = "advance 1000 (emit (EvSleep 1000) w1)"
      from "1.prems" \<open>of_nat currentTry < maxTries\<close> att x ne
      have rec: "performTest_loop e url options startTime maxTries (Suc currentTry) ?w2 = (r, w')"
        by (subst (asm) performTest_loop.simps) simp
      from "1.IH"[OF \<open>of_nat currentTry < maxTries\<close> att[symmetric] _ ne rec] x
      obtain evs where w': "w' = ?w2\<lparr>clock := clock w', log := log ?w2 @ evs\<rparr>"
        and pe: "probe_events evs"
        by auto
      have "w' = w\<lparr>clock := clock w',
                   log := log w @ ([EvFetch url (default_method options), EvSleep 1000] @ evs)\<rparr>"
        using w' lw1 upd by (simp add: advance_def emit_def)
      moreover have "probe_events ([EvFetch url (default_method options), EvSleep 1000] @ evs)"
        using pe by (simp add: probe_events_def)
      ultimately show ?thesis by blast
    qed
  qed
qed

lemma performTest_frame:
  assumes "performTest e url options w = (r, w')"
  shows "\<exists>evs. w' = w\<lparr>clock := clock w', log := log w @ evs\<rparr> \<and> probe_events evs"
  using assms unfolding performTest_def by (rule performTest_loop_frame)

lemma probe_events_no_push: "probe_events evs \<Longrightarrow> filter is_push evs = []"
  by (induction evs) (auto simp: probe_events_def elim: is_fetch.elims is_sleep.elims)

lemma probe_events_no_timer: "probe_events evs \<Longrightarrow> filter is_set_interval evs = []"
  by (induction evs) (auto simp: probe_events_def elim: is_fetch.elims is_sleep.elims)

lemma js_round_of_int: "js_round (of_int i) = i"
  by (simp add: js_round_def floor_eq_iff)

lemma js_round_numeral: "js_round (numeral k) = numeral k"
  using js_round_of_int[of "numeral k"] by simp

text \<open>A \<open>timeout\<close> option of 2147483648 aborts every request after 1 ms: three
  attempts and status 0, although the target answers 200 after 5 ms.\<close>

lemma huge_timeout_aborts:
  "performTest (steady_env (Response 200 (Some JNull) 1) (PushResponds True)) ''http://a''
     (no_options\<lparr>timeout := Some 2147483648, retryCount := Some 2,
                  validateResponse := Some reject_all\<rparr>) world0 =
   (Inr \<lparr>endpoint = ''http://a'', timestamp = 2003, latency = 2003, status = 0, success = False\<rparr>,
    world0\<lparr>clock := 2003,
      log := [EvFetch ''http://a'' GET, EvSleep 1000, EvFetch ''http://a'' GET, EvSleep 1000,
              EvFetch ''http://a'' GET]\<rparr>)"
  by (simp add: performTest_def max_tries_def performTest_loop.simps attempt_def abort_after_def
      timer_delay_def steady_env_def no_options_def world0_def reject_all_def fetches_def emit_def
      advance_def default_method_def response_ok_def date_now_def js_round_numeral)

section \<open>What a probe cycle leaves alone\<close>

lemma performTest_sessions:
  assumes "performTest e url options w = (r, w')"
  shows "sessions w' = sessions w" and "rows w' = rows w" and "pushes w' = pushes w"
    and "\<exists>evs. log w' = log w @ evs \<and> filter is_set_interval evs = []"
proof -
  from performTest_frame[OF assms] obtain evs
    where w': "w' = w\<lparr>clock := clock w', log := log w @ evs\<rparr>" and pe: "probe_events evs"
    by blast
  show "sessions w' = sessions w"
    by (subst w') (simp add: sessions_def)
  show "rows w' = rows w"
    by (subst w') simp
  have l: "log w' = log w @ evs"
    by (subst w') simp
  then show "pushes w' = pushes w"
    using probe_events_no_push[OF pe] by (simp add: pushes_def)
  from l probe_events_no_timer[OF pe]
  show "\<exists>evs. log w' = log w @ evs \<and> filter is_set_interval evs = []"
    by blast
qed

lemma storeResult_frame:
  "sessions (storeResult result w) = sessions w"
  "pushes (storeResult result w) = pushes w"
  "clock (storeResult result w) = clock w"
  "\<exists>ev. log (storeResult result w) = log w @ [ev] \<and> \<not> is_set_interval ev"
  by (simp_all add: storeResult_def Let_def sessions_def emit_def pushes_def)

lemma pushMetrics_frame:
  assumes "pushMetrics e test w = (r, w')"
  shows "sessions w' = sessions w"
    and "\<exists>evs. log w' = log w @ evs \<and> filter is_set_interval evs = []"
  using assms
  by (auto simp: pushMetrics_def Let_def sessions_def emit_def split: push_reply.splits if_splits)

lemma checkAlertThresholds_frame:
  assumes "checkAlertThresholds e result w = (r, w')"
  shows "sessions w' = sessions w"
    and "\<exists>evs. log w' = log w @ evs \<and> filter is_set_interval evs = []"
  using assms
  by (auto simp: checkAlertThresholds_def Let_def sessions_def emit_def sendAlert_def
      split: option.splits sum.splits if_splits)

lemma testEndpoint_frame:
  assumes "testEndpoint e url options w = (r, w')"
  shows "sessions w' = sessions w"
    and "\<exists>evs. log w' = log w @ evs \<and> filter is_set_interval evs = []"
proof -
  obtain r1 w1 where p: "performTest e url options w = (r1, w1)"
    by (cases "performTest e url options w")
  note f1 = performTest_sessions(1,4)[OF p]
  have "sessions w' = sessions w \<and> (\<exists>evs. log w' = log w @ evs \<and> filter is_set_interval evs = [])"
  proof (cases r1)
    case (Inl err)
    with assms p have "w' = w1" by (simp add: testEndpoint_def)
    with f1 show ?thesis by simp
  next
    case (Inr result)
    let ?w2 = "storeResult result w1"
    obtain r3 w3 where q: "pushMetrics e result ?w2 = (r3, w3)"
      by (cases "pushMetrics e result ?w2")
    note f3 = pushMetrics_frame[OF q]
    from f1 storeResult_frame(1,4)[of result w1] f3
    have s3: "sessions w3 = sessions w"
      and l3: "\<exists>evs. log w3 = log w @ evs \<and> filter is_set_interval evs = []"
      by auto
    show ?thesis
    proof (cases r3)
      case (Inl err)
      with assms p Inr q have "w' = w3" by (simp add: testEndpoint_def)
      with s3 l3 show ?thesis by simp
    next
      case u: (Inr u)
      obtain r4 w4 where c: "checkAlertThresholds e result w3 = (r4, w4)"
        by (cases "checkAlertThresholds e result w3")
      with assms p Inr q u have "w' = w4"
        by (auto simp: testEndpoint_def split: sum.splits)
      with checkAlertThresholds_frame[OF c] s3 l3 show ?thesis by auto
    qed
  qed
  then show "sessions w' = sessions w"
    and "\<exists>evs. log w' = log w @ evs \<and> filter is_set_interval evs = []"
    by simp_all
qed

lemma sessions_emit: "sessions (emit ev w) = sessions w"
  by (simp add: sessions_def emit_def)

lemma timer_fire_sessions: "sessions (timer_fire e timer w) = sessions w"
proof (cases "timers w timer")
  case None
  then show ?thesis by (simp add: timer_fire_def)
next
  case (Some x)
  obtain url options iv where x: "x = (url, options, iv)"
    by (cases x)
  obtain r w' where t: "testEndpoint e url options w = (r, w')"
    by (cases "testEndpoint e url options w")
  from testEndpoint_frame(1)[OF t] Some x t show ?thesis
    by (cases r) (simp_all add: timer_fire_def sessions_emit)
qed

section \<open>Claims about the probe executor\<close>

text \<open>
  C1, as the code has it. When a validator is supplied and the request completes before
  the abort timer fires, with a JSON body on which the validator returns false,
  \<open>performTest\<close> returns after that first response: one attempt, \<open>success = false\<close>,
  the status of the response. The \<open>return\<close> of line 93 is taken whatever \<open>success\<close> is,
  for every \<open>retryCount\<close> with which the loop is entered at all: an absent one and every
  one above \<open>-1\<close>, so every one that is not negative.
\<close>

theorem validator_false_returns_first_response:
  assumes "validateResponse options = Some v"
    and "0 < max_tries options"
    and "probe_net e (fetches w) = \<lparr>delay = d, answer = Response st (Some j) body_ms\<rparr>"
    and "d \<le> abort_after options"
    and "v j = Inr False"
  shows "\<exists>result w'. performTest e url options w = (Inr result, w')
           \<and> \<not> success result \<and> status result = st \<and> fetches w' = fetches w + 1"
proof -
  have "\<exists>t w1. attempt e url options w = (Inr (st, False, t), w1)"
    using assms(1,3,4,5) by (auto simp: attempt_def Let_def split: option.splits)
  then obtain t w1 where a: "attempt e url options w = (Inr (st, False, t), w1)"
    by blast
  from performTest_completed[OF a assms(2)]
  show ?thesis
    using fetches_attempt[of e url options w] a by simp
qed

theorem validator_false_returns_first_response_witness:
  "reject_all JNull = Inr False
   \<and> (\<exists>result w'. performTest (steady_env (Response 200 (Some JNull) 1) (PushResponds True))
         ''http://a'' (no_options\<lparr>retryCount := Some 3, validateResponse := Some reject_all\<rparr>)
         world0 = (Inr result, w')
       \<and> \<not> success result \<and> status result = 200 \<and> fetches w' = 1)"
proof -
  let ?options = "no_options\<lparr>retryCount := Some 3, validateResponse := Some reject_all\<rparr>"
  let ?e = "steady_env (Response 200 (Some JNull) 1) (PushResponds True)"
  have h1: "validateResponse ?options = Some reject_all"
    by simp
  have h2: "0 < max_tries ?options"
    by (simp add: max_tries_def)
  have h3: "probe_net ?e (fetches world0) = \<lparr>delay = 5, answer = Response 200 (Some JNull) 1\<rparr>"
    by (simp add: steady_env_def)
  have h4: "(5::rat) \<le> abort_after ?options"
    by (simp add: abort_after_def timer_delay_def no_options_def)
  have h5: "reject_all JNull = Inr False"
    by (simp add: reject_all_def)
  have f: "fetches world0 = 0"
    by (simp add: fetches_def world0_def)
  show ?thesis
    using validator_false_returns_first_response[OF h1 h2 h3 h4 h5, of "''http://a''"] h5 f
    by simp
qed

text \<open>
  C1 as stated fails: with \<open>retryCount = 2\<close>, a target that always answers 200 and a
  validator that always returns false, the claim promises three attempts and the code
  makes one, returning status 200 after the first response without sleeping.
\<close>

theorem validator_false_no_retry_counterexample:
  "retryCount (no_options\<lparr>retryCount := Some 2, validateResponse := Some reject_all\<rparr>) = Some 2
   \<and> performTest (steady_env (Response 200 (Some JNull) 1) (PushResponds True)) ''http://a''
       (no_options\<lparr>retryCount := Some 2, validateResponse := Some reject_all\<rparr>) world0 =
     (Inr \<lparr>endpoint = ''http://a'', timestamp = 6, latency = 5, status = 200, success = False\<rparr>,
      world0\<lparr>clock := 6, log := [EvFetch ''http://a'' GET]\<rparr>)"
  by (simp add: performTest_def max_tries_def performTest_loop.simps attempt_def abort_after_def timer_delay_def steady_env_def
      no_options_def world0_def reject_all_def fetches_def emit_def advance_def default_method_def
      response_ok_def date_now_def js_round_numeral)

text \<open>
  C4, as the code has it. With \<open>retryCount = n\<close>, when each of the \<open>n + 1\<close> attempts ends
  in an exception (network error, abort by the timeout, or an exception while decoding or
  validating the body), \<open>performTest\<close> makes exactly \<open>n + 1\<close> attempts and returns
  \<open>success = false\<close>, \<open>status = 0\<close>. With \<open>retryCount = 0\<close> exactly one attempt is made,
  whatever the target answers.
\<close>

theorem all_exceptions_exhaust_retries:
  "(retryCount options = Some (of_nat n) \<and>
    (\<forall>k<Suc n. reply_throws options (probe_net e (fetches w + k)))
      \<longrightarrow> (\<exists>result w'. performTest e url options w = (Inr result, w')
             \<and> \<not> success result \<and> status result = 0 \<and> fetches w' = fetches w + (n + 1)))
   \<and> (retryCount options = Some 0
      \<longrightarrow> fetches (snd (performTest e url options w)) = fetches w + 1)"
proof (intro conjI impI)
  assume h: "retryCount options = Some (of_nat n) \<and>
    (\<forall>k<Suc n. reply_throws options (probe_net e (fetches w + k)))"
  then have "max_tries options = of_nat (Suc n)"
    by (simp add: max_tries_def)
  from performTest_all_throw[OF this, of e w url] h
  show "\<exists>result w'. performTest e url options w = (Inr result, w')
             \<and> \<not> success result \<and> status result = 0 \<and> fetches w' = fetches w + (n + 1)"
    by (auto simp: exhausted_def)
next
  assume "retryCount options = Some 0"
  then have "max_tries options = 1"
    by (simp add: max_tries_def)
  from performTest_single[OF this, of e url w]
  show "fetches (snd (performTest e url options w)) = fetches w + 1"
    by simp
qed

theorem all_exceptions_exhaust_retries_witness:
  "reply_throws (no_options\<lparr>retryCount := Some 2\<rparr>)
     (probe_net (steady_env NetError (PushResponds True)) 0)
   \<and> (\<exists>result w'. performTest (steady_env NetError (PushResponds True)) ''http://a''
         (no_options\<lparr>retryCount := Some 2\<rparr>) world0 = (Inr result, w')
       \<and> \<not> success result \<and> status result = 0 \<and> fetches w' = 3)
   \<and> fetches (snd (performTest (steady_env (Response 500 None 0) (PushResponds True)) ''http://a''
         (no_options\<lparr>retryCount := Some 0\<rparr>) world0)) = 1"
proof -
  let ?options = "no_options\<lparr>retryCount := Some 2\<rparr>"
  let ?e = "steady_env NetError (PushResponds True)"
  have h0: "reply_throws ?options (probe_net ?e k)" for k
    by (simp add: reply_throws_def abort_after_def timer_delay_def steady_env_def no_options_def)
  have h: "retryCount ?options = Some (of_nat 2) \<and>
      (\<forall>k<Suc 2. reply_throws ?options (probe_net ?e (fetches world0 + k)))"
    using h0 by simp
  have f: "fetches world0 = 0"
    by (simp add: fetches_def world0_def)
  have z: "retryCount (no_options\<lparr>retryCount := Some 0\<rparr>) = Some 0"
    by simp
  show ?thesis
    using all_exceptions_exhaust_retries[of ?options 2 ?e world0 "''http://a''"] h h0[of 0] f
      all_exceptions_exhaust_retries[of "no_options\<lparr>retryCount := Some 0\<rparr>" 0
        "steady_env (Response 500 None 0) (PushResponds True)" world0 "''http://a''"] z
    by simp
qed

text \<open>
  C4 as stated fails for a target whose attempts fail by their status: with
  \<open>retryCount = 2\<close> and a target that always answers 500, the code makes one attempt and
  returns status 500, not three attempts and status 0.
\<close>

theorem status_mismatch_no_retry_counterexample:
  "retryCount (no_options\<lparr>retryCount := Some 2\<rparr>) = Some 2
   \<and> performTest (steady_env (Response 500 None 0) (PushResponds True)) ''http://a''
       (no_options\<lparr>retryCount := Some 2\<rparr>) world0 =
     (Inr \<lparr>endpoint = ''http://a'', timestamp = 5, latency = 5, status = 500, success = False\<rparr>,
      world0\<lparr>clock := 5, log := [EvFetch ''http://a'' GET]\<rparr>)"
  by (simp add: performTest_def max_tries_def performTest_loop.simps attempt_def abort_after_def timer_delay_def steady_env_def
      no_options_def world0_def fetches_def emit_def advance_def default_method_def
      response_ok_def date_now_def js_round_numeral)

text \<open>
  C7. When a probe exhausts its attempts (each of the \<open>n + 1\<close> attempts throws), the
  reported latency is the rounded time from the reading of \<open>startTime\<close> before the first
  attempt to the final verdict, and that time is the sum of the durations of all
  \<open>n + 1\<close> attempts plus \<open>n\<close> delays of 1000 ms.
\<close>

theorem exhausted_latency_spans_attempts:
  assumes "retryCount options = Some (of_nat n)"
    and "\<forall>k<Suc n. reply_throws options (probe_net e (fetches w + k))"
  shows "\<exists>result w'. performTest e url options w = (Inr result, w')
           \<and> latency result = js_round (clock w' - clock w)
           \<and> clock w' - clock w =
               (\<Sum>k<Suc n. thrown_after options (probe_net e (fetches w + k))) + 1000 * of_nat n"
proof -
  have "max_tries options = of_nat (Suc n)"
    using assms(1) by (simp add: max_tries_def)
  from performTest_all_throw[OF this assms(2), of url]
  obtain w' where "performTest e url options w = (Inr (exhausted url (clock w) w'), w')"
    and "clock w' = clock w + (\<Sum>k<Suc n. thrown_after options (probe_net e (fetches w + k)))
                          + 1000 * of_nat n"
    by blast
  then show ?thesis
    by (intro exI[of _ "exhausted url (clock w) w'"] exI[of _ w']) (simp add: exhausted_def)
qed

theorem exhausted_latency_spans_attempts_witness:
  "\<exists>result w'. performTest (steady_env NetError (PushResponds True)) ''http://a''
         (no_options\<lparr>retryCount := Some 2\<rparr>) world0 = (Inr result, w')
       \<and> latency result = 2015"
proof -
  let ?options = "no_options\<lparr>retryCount := Some 2\<rparr>"
  let ?e = "steady_env NetError (PushResponds True)"
  have h1: "retryCount ?options = Some (of_nat 2)"
    by simp
  have t: "thrown_after ?options (probe_net ?e k) = 5" for k
    by (simp add: thrown_after_def abort_after_def timer_delay_def steady_env_def no_options_def)
  have h2: "\<forall>k<Suc 2. reply_throws ?options (probe_net ?e (fetches world0 + k))"
    by (simp add: reply_throws_def abort_after_def timer_delay_def steady_env_def no_options_def)
  have "js_round 2015 = 2015"
    by (rule js_round_numeral)
  then show ?thesis
    using exhausted_latency_spans_attempts[OF h1 h2, of "''http://a''"] t
    by (auto simp: numeral_3_eq_3)
qed

section \<open>Claims about the probe cycle and its sinks\<close>

lemma pushMetrics_fails:
  assumes "grafana e (pushes w) \<noteq> PushResponds True"
  shows "\<exists>err. pushMetrics e test w = (Inl err, emit (EvConsoleError err) (emit (EvPush test) w))"
  using assms by (cases "grafana e (pushes w)") (auto simp: pushMetrics_def Let_def)

text \<open>
  C2, as the code has it. When the probe has returned a result and the telemetry push
  fails (the request is rejected or the answer is not \<open>ok\<close>), \<open>pushMetrics\<close> logs the
  error and throws it again: \<open>testEndpoint\<close> rejects with that error, after the result was
  persisted and before any alert evaluation (the final state holds no query and no
  notification of this cycle). The scheduler's state is untouched: the session and its
  timer stay, and the timer callback logs the rejection and returns.
\<close>

theorem telemetry_failure_rejects_cycle:
  assumes "performTest e url options w = (Inr result, w1)"
    and "grafana e (pushes w) \<noteq> PushResponds True"
  shows "\<exists>err. testEndpoint e url options w =
             (Inl err, emit (EvConsoleError err) (emit (EvPush result) (storeResult result w1)))
           \<and> sessions (snd (testEndpoint e url options w)) = sessions w
           \<and> (timers w timer = Some (url, options, iv)
              \<longrightarrow> timer_fire e timer w =
                    emit (EvConsoleError err)
                      (emit (EvConsoleError err) (emit (EvPush result) (storeResult result w1)))
                \<and> sessions (timer_fire e timer w) = sessions w)"
proof -
  let ?w2 = "storeResult result w1"
  have "pushes ?w2 = pushes w"
    using performTest_sessions(3)[OF assms(1)] storeResult_frame(2)[of result w1] by simp
  with assms(2) have "grafana e (pushes ?w2) \<noteq> PushResponds True"
    by simp
  from pushMetrics_fails[OF this, of result] obtain err
    where p: "pushMetrics e result ?w2 = (Inl err, emit (EvConsoleError err) (emit (EvPush result) ?w2))"
    by blast
  have t: "testEndpoint e url options w =
             (Inl err, emit (EvConsoleError err) (emit (EvPush result) ?w2))"
    using assms(1) p by (simp add: testEndpoint_def)
  have s: "sessions (snd (testEndpoint e url options w)) = sessions w"
    using testEndpoint_frame(1)[OF t] t by simp
  have "timer_fire e timer w =
          emit (EvConsoleError err) (emit (EvConsoleError err) (emit (EvPush result) ?w2))"
    if "timers w timer = Some (url, options, iv)"
    using that t by (simp add: timer_fire_def)
  with t s timer_fire_sessions[of e timer w] show ?thesis
    by blast
qed

theorem telemetry_failure_rejects_cycle_witness:
  "grafana (steady_env (Response 200 None 0) PushRejects) 0 \<noteq> PushResponds True
   \<and> isl (fst (testEndpoint (steady_env (Response 200 None 0) PushRejects) ''http://a''
               no_options monitoring))
   \<and> activeTests (snd (testEndpoint (steady_env (Response 200 None 0) PushRejects) ''http://a''
               no_options monitoring)) ''http://a'' = Some 0
   \<and> timers (timer_fire (steady_env (Response 200 None 0) PushRejects) 0 monitoring) 0
       = Some (''http://a'', no_options, 30000)
   \<and> activeTests (timer_fire (steady_env (Response 200 None 0) PushRejects) 0 monitoring)
       ''http://a'' = Some 0"
proof -
  let ?e = "steady_env (Response 200 None 0) PushRejects"
  let ?w = "monitoring"
  have h1: "performTest ?e ''http://a'' no_options ?w =
      (Inr \<lparr>endpoint = ''http://a'', timestamp = 5, latency = 5, status = 200, success = True\<rparr>,
       ?w\<lparr>clock := 5, log := [EvFetch ''http://a'' GET]\<rparr>)"
    by (simp add: performTest_def max_tries_def performTest_loop.simps attempt_def abort_after_def timer_delay_def steady_env_def
        no_options_def world0_def fetches_def emit_def advance_def default_method_def
        response_ok_def date_now_def js_round_numeral Let_def monitoring_def)
  have h2: "grafana ?e (pushes ?w) \<noteq> PushResponds True"
    by (simp add: steady_env_def)
  have h3: "grafana ?e 0 \<noteq> PushResponds True"
    by (simp add: steady_env_def)
  have h4: "timers ?w 0 = Some (''http://a'', no_options, 30000)"
    and a: "activeTests ?w ''http://a'' = Some 0"
    by (simp_all add: monitoring_def)
  from telemetry_failure_rejects_cycle[OF h1 h2, of 0 30000] h4
  obtain err where "fst (testEndpoint ?e ''http://a'' no_options ?w) = Inl err"
    and "sessions (snd (testEndpoint ?e ''http://a'' no_options ?w)) = sessions ?w"
    and "sessions (timer_fire ?e 0 ?w) = sessions ?w"
    by auto
  with h3 h4 a show ?thesis
    by (simp add: sessions_def)
qed

text \<open>
  C2 as stated fails: with a threshold of 1 ms on the average latency, a probe of 5 ms
  and a telemetry sink that rejects the push, \<open>testEndpoint\<close> rejects with the sink's
  error and the cycle ends without the window query or the notification; with the sink
  up, the same cycle queries the window and notifies.
\<close>

theorem telemetry_failure_counterexample:
  "testEndpoint (steady_env (Response 200 None 0) PushRejects) ''http://a'' no_options
      (watching latency_threshold) =
     (Inl NetworkError,
      (watching latency_threshold)\<lparr>clock := 5,
        log := [EvFetch ''http://a'' GET,
                EvInsert \<lparr>r_timestamp = 5, r_endpoint = ''http://a'', r_latency = 5,
                          r_status = 200, r_success = 1\<rparr>,
                EvPush \<lparr>endpoint = ''http://a'', timestamp = 5, latency = 5, status = 200,
                        success = True\<rparr>,
                EvConsoleError NetworkError],
        rows := [\<lparr>r_timestamp = 5, r_endpoint = ''http://a'', r_latency = 5,
                          r_status = 200, r_success = 1\<rparr>]\<rparr>)
   \<and> log (snd (testEndpoint (steady_env (Response 200 None 0) (PushResponds True)) ''http://a''
        no_options (watching latency_threshold))) =
       [EvFetch ''http://a'' GET,
        EvInsert \<lparr>r_timestamp = 5, r_endpoint = ''http://a'', r_latency = 5,
                  r_status = 200, r_success = 1\<rparr>,
        EvPush \<lparr>endpoint = ''http://a'', timestamp = 5, latency = 5, status = 200,
                success = True\<rparr>,
        EvQuery ''http://a'' (- 59995),
        EvNotify ''http://hook'' ''http://a'' [HighLatency 5 1]]"
  by (simp add: testEndpoint_def storeResult_def
      pushMetrics_def checkAlertThresholds_def pushes_def notifications_def sendAlert_def
      window_aggregate_def window_rows_def sql_avg_def collect_alerts_def latency_breach_def
      success_breach_def to_number_def watching_def setAlertThreshold_def latency_threshold_def
      performTest_def max_tries_def performTest_loop.simps attempt_def abort_after_def timer_delay_def steady_env_def
      no_options_def world0_def fetches_def emit_def advance_def default_method_def
      response_ok_def date_now_def js_round_numeral Let_def)

section \<open>Claims about the alert evaluator\<close>

lemma sum_success_count:
  "sum_list (map (\<lambda>r. if r_success r = 1 then 1 else (0::rat)) sel) =
     of_nat (length (filter (\<lambda>r. r_success r = 1) sel))"
  by (induction sel) simp_all

lemma sum_latency_of_int:
  "sum_list (map (\<lambda>r. rat_of_int (r_latency r)) sel) = of_int (sum_list (map r_latency sel))"
  by (induction sel) simp_all

text \<open>The aggregates of the query, over the rows of the endpoint from \<open>windowStart\<close> on.\<close>

lemma window_aggregate_nonempty:
  assumes "sel = filter (\<lambda>r. r_endpoint r = ep \<and> ws \<le> r_timestamp r) rs" and "sel \<noteq> []"
  shows "window_aggregate rs ep ws =
    \<lparr>avg_latency = Some (of_int (sum_list (map r_latency sel)) / of_nat (length sel)),
     success_rate = Some (of_nat (length (filter (\<lambda>r. r_success r = 1) sel)) / of_nat (length sel))\<rparr>"
  using assms
  by (simp add: window_aggregate_def window_rows_def Let_def sql_avg_def sum_success_count
      sum_latency_of_int)


lemma stored_simps:
  "alertThresholds (stored rs threshold) (AlertThreshold.endpoint threshold) = Some threshold"
  "rows (stored rs threshold) = rs"
  "log (stored rs threshold) = []"
  by (simp_all add: stored_def watching_def setAlertThreshold_def world0_def)

lemma window_of_ten_rows:
  "filter (\<lambda>r. r_endpoint r = ''http://a'' \<and> - 59990 \<le> r_timestamp r) (ten_rows k @ outside_rows)
     = ten_rows k"
  by (simp add: ten_rows_def sample_row_def outside_rows_def)




text \<open>
  C8, as the code has it. \<open>checkAlertThresholds\<close> for a result whose endpoint has a
  threshold, over a window with rows: the rows of the result's endpoint with a timestamp
  from \<open>result.timestamp - windowSize\<close> on. The success rate is the share of those rows
  with \<open>success = 1\<close>, the average latency the mean of their latencies. With
  \<open>minSuccessRate\<close> set the success-rate breach fires exactly when the rate is strictly
  below it; the latency breach fires exactly when \<open>maxLatency\<close> is set to a number other
  than 0 and the average is strictly above it. At equality neither fires. The alerts
  of the evaluation are these and no others, and they are what the notification carries.
\<close>

theorem breach_boundaries_exclusive:
  assumes "alertThresholds w (LatencyTest.endpoint result) = Some threshold"
    and "sel = filter (\<lambda>r. r_endpoint r = LatencyTest.endpoint result \<and>
                          timestamp result - windowSize threshold \<le> r_timestamp r) (rows w)"
    and "sel \<noteq> []"
    and "rate = of_nat (length (filter (\<lambda>r. r_success r = 1) sel)) / of_nat (length sel)"
    and "avg = of_int (sum_list (map r_latency sel)) / of_nat (length sel)"
    and "high = (case maxLatency threshold of
                   None \<Rightarrow> []
                 | Some m \<Rightarrow> if m \<noteq> 0 \<and> m < avg then [HighLatency avg m] else [])"
    and "low = (case minSuccessRate threshold of
                  None \<Rightarrow> []
                | Some m \<Rightarrow> if rate < m then [LowSuccessRate rate m] else [])"
    and "w1 = emit (EvQuery (LatencyTest.endpoint result)
                      (timestamp result - windowSize threshold)) w"
  shows "collect_alerts threshold
           (window_aggregate (rows w) (LatencyTest.endpoint result)
              (timestamp result - windowSize threshold)) = Inr (high @ low)
         \<and> checkAlertThresholds e result w =
             (Inr (), case notificationUrl threshold of
                        None \<Rightarrow> w1
                      | Some u \<Rightarrow> if high @ low \<noteq> [] \<and> u \<noteq> []
                                  then sendAlert e (LatencyTest.endpoint result) (high @ low) u w1
                                  else w1)"
proof -
  let ?recent = "window_aggregate (rows w) (LatencyTest.endpoint result)
                   (timestamp result - windowSize threshold)"
  have agg: "?recent = \<lparr>avg_latency = Some avg, success_rate = Some rate\<rparr>"
    using window_aggregate_nonempty[OF assms(2,3)] assms(4,5) by simp
  have "0 \<le> rate"
    using assms(4) by simp
  then have lo: "success_breach threshold ?recent = low"
    using assms(7) by (auto simp: agg success_breach_def to_number_def split: option.splits)
  have hi: "latency_breach threshold ?recent = Inr high"
    using assms(6) by (auto simp: agg latency_breach_def to_number_def split: option.splits)
  have c: "collect_alerts threshold ?recent = Inr (high @ low)"
    by (simp add: collect_alerts_def hi lo)
  have "checkAlertThresholds e result w =
             (Inr (), case notificationUrl threshold of
                        None \<Rightarrow> w1
                      | Some u \<Rightarrow> if high @ low \<noteq> [] \<and> u \<noteq> []
                                  then sendAlert e (LatencyTest.endpoint result) (high @ low) u w1
                                  else w1)"
    using assms(1,8) c
    by (simp add: checkAlertThresholds_def Let_def split: option.splits)
  with c show ?thesis
    by simp
qed

theorem breach_boundaries_exclusive_witness:
  "checkAlertThresholds (steady_env NetError PushRejects) sample_result
       (stored (ten_rows 1 @ outside_rows) (success_threshold 60000)) =
     (Inr (), emit (EvQuery ''http://a'' (- 59990))
                (stored (ten_rows 1 @ outside_rows) (success_threshold 60000)))
   \<and> checkAlertThresholds (steady_env NetError PushRejects) sample_result
       (stored (ten_rows 2 @ outside_rows) (success_threshold 60000)) =
     (Inr (), sendAlert (steady_env NetError PushRejects) ''http://a''
                [LowSuccessRate (8 / 10) (9 / 10)] ''http://hook''
                (emit (EvQuery ''http://a'' (- 59990))
                   (stored (ten_rows 2 @ outside_rows) (success_threshold 60000))))
   \<and> checkAlertThresholds (steady_env NetError PushRejects) sample_result
       (stored (ten_rows 1 @ outside_rows) (latency_threshold\<lparr>maxLatency := Some 100\<rparr>)) =
     (Inr (), emit (EvQuery ''http://a'' (- 59990))
                (stored (ten_rows 1 @ outside_rows) (latency_threshold\<lparr>maxLatency := Some 100\<rparr>)))
   \<and> checkAlertThresholds (steady_env NetError PushRejects) sample_result
       (stored (ten_rows 1 @ outside_rows) (latency_threshold\<lparr>maxLatency := Some 99\<rparr>)) =
     (Inr (), sendAlert (steady_env NetError PushRejects) ''http://a''
                [HighLatency 100 99] ''http://hook''
                (emit (EvQuery ''http://a'' (- 59990))
                   (stored (ten_rows 1 @ outside_rows) (latency_threshold\<lparr>maxLatency := Some 99\<rparr>))))"
proof -
  let ?e = "steady_env NetError PushRejects"
  have ep: "LatencyTest.endpoint sample_result = ''http://a''"
    and ts: "timestamp sample_result = 10"
    by (simp_all add: sample_result_def)
  have th: "alertThresholds (stored rs t) (LatencyTest.endpoint sample_result) = Some t"
    if "AlertThreshold.endpoint t = ''http://a''" for rs t
    using stored_simps(1)[of rs t] that ep by simp
  have sel: "ten_rows k = filter (\<lambda>r. r_endpoint r = LatencyTest.endpoint sample_result \<and>
               timestamp sample_result - windowSize t \<le> r_timestamp r)
               (rows (stored (ten_rows k @ outside_rows) t))"
    if "windowSize t = 60000" for k t
    using that by (simp add: ep ts stored_simps(2) window_of_ten_rows del: filter_append)
  have ne: "ten_rows k \<noteq> []" for k
    by (simp add: ten_rows_def)
  have s: "AlertThreshold.endpoint (success_threshold 60000) = ''http://a''"
    "windowSize (success_threshold 60000) = 60000"
    "AlertThreshold.endpoint (latency_threshold\<lparr>maxLatency := x\<rparr>) = ''http://a''"
    "windowSize (latency_threshold\<lparr>maxLatency := x\<rparr>) = 60000" for x
    by (simp_all add: success_threshold_def latency_threshold_def)
  note a = breach_boundaries_exclusive[OF th[OF s(1)] sel[OF s(2)] ne refl refl refl refl refl, of 1 ?e]
  note b = breach_boundaries_exclusive[OF th[OF s(1)] sel[OF s(2)] ne refl refl refl refl refl, of 2 ?e]
  note c = breach_boundaries_exclusive[OF th[OF s(3)] sel[OF s(4)] ne refl refl refl refl refl,
      of "Some 100" 1 ?e]
  note d = breach_boundaries_exclusive[OF th[OF s(3)] sel[OF s(4)] ne refl refl refl refl refl,
      of "Some 99" 1 ?e]
  show ?thesis
    using conjunct2[OF a] conjunct2[OF b] conjunct2[OF c] conjunct2[OF d]
    by (simp add: ep ts success_threshold_def latency_threshold_def ten_rows_def sample_row_def)
qed

text \<open>
  C8 as stated fails for \<open>maxLatency = 0\<close>: over a window whose average latency is 100,
  above 0, the latency breach does not fire and the evaluation only queries the window.
\<close>

theorem zero_max_latency_counterexample:
  "maxLatency (latency_threshold\<lparr>maxLatency := Some 0\<rparr>) = Some 0
   \<and> avg_latency (window_aggregate
         (rows (stored (ten_rows 0 @ outside_rows) (latency_threshold\<lparr>maxLatency := Some 0\<rparr>)))
         ''http://a'' (- 59990)) = Some 100
   \<and> checkAlertThresholds (steady_env NetError PushRejects) sample_result
       (stored (ten_rows 0 @ outside_rows) (latency_threshold\<lparr>maxLatency := Some 0\<rparr>)) =
     (Inr (), emit (EvQuery ''http://a'' (- 59990))
                (stored (ten_rows 0 @ outside_rows) (latency_threshold\<lparr>maxLatency := Some 0\<rparr>)))"
  by (simp add: checkAlertThresholds_def collect_alerts_def latency_breach_def success_breach_def
      window_aggregate_def window_rows_def sql_avg_def to_number_def Let_def
      stored_def watching_def setAlertThreshold_def world0_def latency_threshold_def
      sample_result_def ten_rows_def sample_row_def outside_rows_def)

text \<open>
  C10. A threshold field that holds the number 0 is treated as unset: with
  \<open>maxLatency = 0\<close> the latency breach never fires and with \<open>minSuccessRate = 0\<close> the
  success-rate breach never fires, whatever the aggregates are; with both unset in this
  sense the evaluation only queries the window. The body schema of \<open>POST /alerts\<close>
  accepts such a threshold.
\<close>

theorem zero_threshold_is_unset:
  "(maxLatency threshold = Some 0 \<longrightarrow> latency_breach threshold recent = Inr [])
   \<and> (minSuccessRate threshold = Some 0 \<longrightarrow> success_breach threshold recent = [])
   \<and> (maxLatency threshold = Some 0 \<and> (minSuccessRate threshold = Some 0 \<or> minSuccessRate threshold = None)
      \<and> alertThresholds w (LatencyTest.endpoint result) = Some threshold
      \<longrightarrow> checkAlertThresholds e result w =
            (Inr (), emit (EvQuery (LatencyTest.endpoint result)
                             (timestamp result - windowSize threshold)) w))
   \<and> (is_uri (AlertThreshold.endpoint threshold) \<and> maxLatency threshold = Some 0
      \<and> minSuccessRate threshold = Some 0 \<and> 1000 \<le> windowSize threshold
      \<and> notificationUrl threshold = None
      \<longrightarrow> post_alerts is_uri threshold w = Some (setAlertThreshold threshold w))"
  by (auto simp: latency_breach_def success_breach_def checkAlertThresholds_def collect_alerts_def
      Let_def post_alerts_def alert_body_schema_def split: option.splits)

theorem zero_threshold_is_unset_witness:
  "latency_breach (latency_threshold\<lparr>maxLatency := Some 0\<rparr>)
     \<lparr>avg_latency = Some 100, success_rate = Some 0\<rparr> = Inr []
   \<and> success_breach ((success_threshold 60000)\<lparr>minSuccessRate := Some 0\<rparr>)
     \<lparr>avg_latency = Some 100, success_rate = Some 0\<rparr> = []
   \<and> checkAlertThresholds (steady_env NetError PushRejects)
        \<lparr>endpoint = ''http://a'', timestamp = 5, latency = 5, status = 200, success = True\<rparr>
        (watching (latency_threshold\<lparr>maxLatency := Some 0\<rparr>)) =
      (Inr (), emit (EvQuery ''http://a'' (- 59995)) (watching (latency_threshold\<lparr>maxLatency := Some 0\<rparr>)))
   \<and> post_alerts (\<lambda>u. True)
        (latency_threshold\<lparr>maxLatency := Some 0, minSuccessRate := Some 0, notificationUrl := None\<rparr>)
        world0 =
      Some (setAlertThreshold
        (latency_threshold\<lparr>maxLatency := Some 0, minSuccessRate := Some 0, notificationUrl := None\<rparr>)
        world0)"
proof -
  let ?t = "latency_threshold\<lparr>maxLatency := Some 0\<rparr>"
  let ?result = "\<lparr>endpoint = ''http://a'', timestamp = 5, latency = 5, status = 200, success = True\<rparr>"
  let ?b = "latency_threshold\<lparr>maxLatency := Some 0, minSuccessRate := Some 0, notificationUrl := None\<rparr>"
  have h3: "maxLatency ?t = Some 0 \<and> (minSuccessRate ?t = Some 0 \<or> minSuccessRate ?t = None)
      \<and> alertThresholds (watching ?t) (LatencyTest.endpoint ?result) = Some ?t"
    and ws: "windowSize ?t = 60000"
    by (simp_all add: latency_threshold_def watching_def setAlertThreshold_def)
  have h4: "(\<lambda>u. True) (AlertThreshold.endpoint ?b) \<and> maxLatency ?b = Some 0
      \<and> minSuccessRate ?b = Some 0 \<and> 1000 \<le> windowSize ?b \<and> notificationUrl ?b = None"
    by (simp add: latency_threshold_def)
  show ?thesis
    using zero_threshold_is_unset[of ?t "\<lparr>avg_latency = Some 100, success_rate = Some 0\<rparr>"
        "watching ?t" ?result]
      zero_threshold_is_unset[of "(success_threshold 60000)\<lparr>minSuccessRate := Some 0\<rparr>"
        "\<lparr>avg_latency = Some 100, success_rate = Some 0\<rparr>"]
      zero_threshold_is_unset[where threshold = ?b and is_uri = "\<lambda>u. True" and w = world0]
      h3 h4 ws
    by simp
qed

section \<open>Claims about the monitor scheduler\<close>

text \<open>A first start on a fresh process, with a target that answers 200.\<close>

lemma first_start:
  "startMonitoring (steady_env (Response 200 None 0) (PushResponds True)) ''http://a'' None world0 =
     (Inr (Inr \<lparr>endpoint = ''http://a'', timestamp = 5, latency = 5, status = 200, success = True\<rparr>),
      world0\<lparr>clock := 5,
        log := [EvSetInterval 0 30000, EvFetch ''http://a'' GET,
                EvInsert \<lparr>r_timestamp = 5, r_endpoint = ''http://a'', r_latency = 5,
                          r_status = 200, r_success = 1\<rparr>,
                EvPush \<lparr>endpoint = ''http://a'', timestamp = 5, latency = 5, status = 200,
                        success = True\<rparr>],
        rows := [\<lparr>r_timestamp = 5, r_endpoint = ''http://a'', r_latency = 5,
                          r_status = 200, r_success = 1\<rparr>],
        activeTests := [''http://a'' \<mapsto> 0],
        timers := [0 \<mapsto> (''http://a'', no_options\<lparr>interval := Some 30000\<rparr>, 30000)],
        nextTimer := 1\<rparr>)"
  by (simp add: startMonitoring_def normalize_options_def testEndpoint_def storeResult_def
      pushMetrics_def checkAlertThresholds_def pushes_def
      performTest_def max_tries_def performTest_loop.simps attempt_def abort_after_def timer_delay_def steady_env_def
      no_options_def world0_def fetches_def emit_def advance_def default_method_def
      response_ok_def date_now_def js_round_numeral Let_def)

lemma activeTests_sessions: "sessions w' = sessions w \<Longrightarrow> activeTests w' = activeTests w"
  by (simp add: sessions_def)



text \<open>
  C5. \<open>startMonitoring\<close> for a url that has a session throws \<open>Already monitoring\<close> and
  leaves the whole state as it was: session table, timers, options. In particular a
  second start after a first one that returned its promise is rejected so.
\<close>

theorem startMonitoring_duplicate_rejected:
  "(activeTests w url = Some timer
      \<longrightarrow> startMonitoring e url options w = (Inl (AlreadyMonitoring url), w))
   \<and> (startMonitoring e url options w = (Inr r, w1)
      \<longrightarrow> startMonitoring e url options' w1 = (Inl (AlreadyMonitoring url), w1))"
proof (intro conjI impI)
  assume "activeTests w url = Some timer"
  then show "startMonitoring e url options w = (Inl (AlreadyMonitoring url), w)"
    by (simp add: startMonitoring_def)
next
  assume s: "startMonitoring e url options w = (Inr r, w1)"
  let ?no = "normalize_options e options"
  let ?iv = "case interval ?no of None \<Rightarrow> DEFAULT_INTERVAL e | Some i \<Rightarrow> i"
  let ?w2 = "(emit (EvSetInterval (nextTimer w) ?iv)
               (w\<lparr>timers := (timers w)(nextTimer w \<mapsto> (url, ?no, ?iv)),
                  nextTimer := Suc (nextTimer w)\<rparr>))
             \<lparr>activeTests := (activeTests w)(url \<mapsto> nextTimer w)\<rparr>"
  from s have fresh: "activeTests w url = None"
    by (auto simp: startMonitoring_def split: if_splits)
  with s have t: "testEndpoint e url ?no ?w2 = (r, w1)"
    by (auto simp: startMonitoring_def Let_def emit_def split: prod.splits)
  have "activeTests w1 = activeTests ?w2"
    by (rule activeTests_sessions[OF testEndpoint_frame(1)[OF t]])
  then have "activeTests w1 url = Some (nextTimer w)"
    by (simp add: emit_def)
  then show "startMonitoring e url options' w1 = (Inl (AlreadyMonitoring url), w1)"
    by (simp add: startMonitoring_def)
qed

theorem startMonitoring_duplicate_rejected_witness:
  "activeTests monitoring ''http://a'' = Some 0
   \<and> startMonitoring (steady_env NetError PushRejects) ''http://a'' (Some (OptNumber 1000))
       monitoring = (Inl (AlreadyMonitoring ''http://a''), monitoring)
   \<and> fst (startMonitoring (steady_env (Response 200 None 0) (PushResponds True)) ''http://a''
       (Some (OptNumber 1000))
       (snd (startMonitoring (steady_env (Response 200 None 0) (PushResponds True))
               ''http://a'' None world0))) = Inl (AlreadyMonitoring ''http://a'')"
proof -
  let ?e = "steady_env (Response 200 None 0) (PushResponds True)"
  obtain r w1 where s: "startMonitoring ?e ''http://a'' None world0 = (Inr r, w1)"
    using first_start by blast
  have "startMonitoring ?e ''http://a'' (Some (OptNumber 1000)) w1
          = (Inl (AlreadyMonitoring ''http://a''), w1)"
    using startMonitoring_duplicate_rejected[of world0 "''http://a''" 0 ?e None r w1] s
    by blast
  with s show ?thesis
    using startMonitoring_duplicate_rejected[of monitoring "''http://a''" 0
        "steady_env NetError PushRejects" "Some (OptNumber 1000)"]
    by (simp add: monitoring_def)
qed




text \<open>
  C9. \<open>stopMonitoring\<close> for a url without a session changes nothing; a second stop
  equals the first; for a url with a session it clears that session's timer and
  removes that entry of the session table, and no other.
\<close>

theorem stopMonitoring_idempotent:
  "(activeTests w url = None \<longrightarrow> stopMonitoring url w = w)
   \<and> stopMonitoring url (stopMonitoring url w) = stopMonitoring url w
   \<and> (activeTests w url = Some timer
      \<longrightarrow> activeTests (stopMonitoring url w) = (activeTests w)(url := None)
        \<and> timers (stopMonitoring url w) = (timers w)(timer := None)
        \<and> log (stopMonitoring url w) = log w @ [EvClearInterval timer])"
  by (auto simp: stopMonitoring_def emit_def split: option.splits)

theorem stopMonitoring_idempotent_witness:
  "stopMonitoring ''http://b'' monitoring = monitoring
   \<and> activeTests (stopMonitoring ''http://a'' monitoring) ''http://a'' = None
   \<and> timers (stopMonitoring ''http://a'' monitoring) 0 = None
   \<and> log (stopMonitoring ''http://a'' monitoring) = [EvClearInterval 0]"
proof -
  have h1: "activeTests monitoring ''http://b'' = None"
    by (simp add: monitoring_def)
  have h2: "activeTests monitoring ''http://a'' = Some 0"
    by (simp add: monitoring_def)
  have l: "log monitoring = []"
    by (simp add: monitoring_def world0_def)
  show ?thesis
    using stopMonitoring_idempotent[of monitoring "''http://b''" 0]
      stopMonitoring_idempotent[of monitoring "''http://a''" 0] h1 h2 l
    by simp
qed

end
